theory Spec2Isabelle
  imports Main "HOL-Library.Word" "HOL-Library.Multiset"
begin

section \<open>JavaScript values used by app.js\<close>

text \<open>
  A JavaScript string is a sequence of UTF-16 code units. The messages the
  components assign to their error states are constant ASCII literals and are
  kept as HOL strings; everything typed by the user or issued by the backend
  (names, descriptions, document ids, user ids) is a \<open>jsstring\<close>.
\<close>

type_synonym jsstring = "16 word list"

definition utf16 :: "string \<Rightarrow> jsstring" where
  "utf16 s = map (\<lambda>c. of_nat (of_char c)) s"

text \<open>
  \<open>String.prototype.trim\<close> removes leading and trailing code units that are
  WhiteSpace or LineTerminator in ECMAScript: TAB, LF, VT, FF, CR, SPACE,
  NBSP, the Unicode space separators, LS, PS and the byte order mark.
\<close>

definition isWhiteSpace :: "16 word \<Rightarrow> bool" where
  "isWhiteSpace c \<longleftrightarrow>
     List.member
       [0x0009, 0x000A, 0x000B, 0x000C, 0x000D, 0x0020, 0x00A0, 0x1680,
        0x2000, 0x2001, 0x2002, 0x2003, 0x2004, 0x2005, 0x2006, 0x2007,
        0x2008, 0x2009, 0x200A, 0x2028, 0x2029, 0x202F, 0x205F, 0x3000,
        0xFEFF] c"

definition trim :: "jsstring \<Rightarrow> jsstring" where
  "trim s = rev (dropWhile isWhiteSpace (rev (dropWhile isWhiteSpace s)))"

text \<open>
  Truthiness of a value that is a string or \<open>null\<close>: \<open>null\<close> and the empty
  string are falsy. Object handles (\<open>db\<close>, \<open>auth\<close>) are falsy only when \<open>null\<close>.
\<close>

definition truthy :: "'a list option \<Rightarrow> bool" where
  "truthy v = (case v of None \<Rightarrow> False | Some s \<Rightarrow> s \<noteq> [])"

text \<open>The two ways an awaited SDK promise settles.\<close>

datatype 'a promise = Fulfilled 'a | Rejected


section \<open>State of the two components\<close>

datatype firebase_app = FirebaseApp
datatype firestore = Firestore
datatype firebase_auth = FirebaseAuth

text \<open>
  The six \<open>useState\<close> cells of \<open>FirebaseProvider\<close>. The context value handed to
  the children, \<open>{ app, db, auth, userId, handleSignOut }\<close>, is read off this
  record.
\<close>

record provider =
  app :: "firebase_app option"
  db :: "firestore option"
  auth :: "firebase_auth option"
  userId :: "jsstring option"
  loading :: bool
  error :: "string option"

text \<open>
  A Firestore \<open>Timestamp\<close>, the value the backend puts in place of
  \<open>serverTimestamp()\<close>: whole seconds since the Unix epoch and the nanoseconds
  within the second. \<open>instant\<close> is the moment it denotes, in nanoseconds since
  the epoch.
\<close>

record timestamp =
  seconds :: int
  nanoseconds :: int

definition Timestamp :: "int \<Rightarrow> int \<Rightarrow> timestamp" where
  "Timestamp s n = \<lparr>seconds = s, nanoseconds = n\<rparr>"



text \<open>
  A listing as published to the view: \<open>{ id: doc.id, ...doc.data() }\<close>. The
  stored fields are the four that \<open>handleAddService\<close> writes. \<open>s_timestamp\<close> is
  \<open>None\<close> while the field is still \<open>null\<close> (a server timestamp that is not
  resolved yet).
\<close>

record service =
  s_id :: jsstring
  s_name :: jsstring
  s_description :: jsstring
  s_userId :: "jsstring option"
  s_timestamp :: "timestamp option"

text \<open>The object literal passed to \<open>addDoc\<close>; \<open>serverTimestamp()\<close> is a sentinel.\<close>

datatype field_value = ServerTimestamp

record payload =
  p_name :: jsstring
  p_description :: jsstring
  p_userId :: "jsstring option"
  p_timestamp :: field_value

text \<open>The five \<open>useState\<close> cells of \<open>AngiCloneAppContent\<close>.\<close>

record content =
  services :: "service list"
  newService :: jsstring
  newDescription :: jsstring
  submitLoading :: bool
  submitError :: "string option"

definition content_init :: content where
  "content_init =
     \<lparr>services = [], newService = [], newDescription = [],
      submitLoading = False, submitError = None\<rparr>"


section \<open>Mutation gateway: handleAddService\<close>

text \<open>
  \<open>handleAddService\<close> is an async function with one \<open>await\<close>. Its synchronous
  prefix either returns after the validation message, or sets the submit flags
  and calls \<open>addDoc\<close> once; the second component of the result is the payload
  of that call, \<open>None\<close> when no call is made. The continuation runs when the
  promise of \<open>addDoc\<close> settles, on the state the component has at that moment.
  A fulfilled promise carries the id of the new document and the time the
  server gave it; the continuation ignores both.
\<close>

definition handleAddService_begin :: "provider \<Rightarrow> content \<Rightarrow> content \<times> payload option" where
  "handleAddService_begin ctx st =
     (if db ctx = None \<or> \<not> truthy (userId ctx) \<or> trim (newService st) = []
      then (st\<lparr>submitError := Some ''Service name cannot be empty.''\<rparr>, None)
      else (st\<lparr>submitLoading := True, submitError := None\<rparr>,
            Some \<lparr>p_name = trim (newService st),
                  p_description = trim (newDescription st),
                  p_userId = userId ctx,
                  p_timestamp = ServerTimestamp\<rparr>))"

definition handleAddService_settle :: "(jsstring \<times> timestamp) promise \<Rightarrow> content \<Rightarrow> content" where
  "handleAddService_settle r st =
     (case r of
        Fulfilled _ \<Rightarrow> st\<lparr>newService := [], newDescription := []\<rparr>
      | Rejected \<Rightarrow> st\<lparr>submitError := Some ''Failed to add service. Please try again.''\<rparr>)
     \<lparr>submitLoading := False\<rparr>"

text \<open>The whole call when nothing else happens between the click and the settling.\<close>

definition handleAddService :: "provider \<Rightarrow> (jsstring \<times> timestamp) promise \<Rightarrow> content \<Rightarrow> content \<times> payload option" where
  "handleAddService ctx r st =
     (case handleAddService_begin ctx st of
        (st', None) \<Rightarrow> (st', None)
      | (st', Some p) \<Rightarrow> (handleAddService_settle r st', Some p))"


text \<open>
  \<open>handleDeleteService\<close>: the \<open>deleteDoc\<close> call it makes (the id of the document
  reference), if any, and the continuation after the promise settles.
\<close>

definition handleDeleteService_begin :: "provider \<Rightarrow> jsstring \<Rightarrow> jsstring option" where
  "handleDeleteService_begin ctx serviceId =
     (if db ctx = None \<or> \<not> truthy (userId ctx) then None else Some serviceId)"

definition handleDeleteService_settle :: "unit promise \<Rightarrow> content \<Rightarrow> content" where
  "handleDeleteService_settle r st =
     (case r of
        Fulfilled _ \<Rightarrow> st
      | Rejected \<Rightarrow> st\<lparr>submitError := Some ''Failed to delete service. Please try again.''\<rparr>)"


section \<open>Listing synchronizer: the onSnapshot callbacks\<close>

text \<open>
  A document of the snapshot: \<open>doc.id\<close> and the fields of \<open>doc.data()\<close>. The
  callback maps it to \<open>{ id: doc.id, ...doc.data() }\<close>.
\<close>

record document =
  doc_id :: jsstring
  doc_name :: jsstring
  doc_description :: jsstring
  doc_userId :: "jsstring option"
  doc_timestamp :: "timestamp option"







definition onSnapshot_error :: "content \<Rightarrow> content" where
  "onSnapshot_error st = st\<lparr>submitError := Some ''Failed to load services.''\<rparr>"


section \<open>The document collection behind the SDK\<close>

text \<open>
  Modelled from the spec: the document database of its section 6, an external
  collaborator that is not part of app.js (document-level create and delete,
  server-assigned write timestamps). A fulfilled \<open>addDoc\<close> stores the payload
  under an id chosen by the backend, with the \<open>serverTimestamp()\<close> sentinel
  replaced by the server's time; a fulfilled \<open>deleteDoc\<close> removes the document
  with the given id, and does nothing when there is none. The id and the time
  are inputs here, so nothing is assumed about how they are chosen.
\<close>

type_synonym collection = "document list"

definition addDoc :: "payload \<Rightarrow> jsstring \<Rightarrow> timestamp \<Rightarrow> collection \<Rightarrow> collection" where
  "addDoc p i t c =
     c @ [\<lparr>doc_id = i, doc_name = p_name p, doc_description = p_description p,
           doc_userId = p_userId p,
           doc_timestamp = (case p_timestamp p of ServerTimestamp \<Rightarrow> Some t)\<rparr>]"

definition deleteDoc :: "jsstring \<Rightarrow> collection \<Rightarrow> collection" where
  "deleteDoc i c = filter (\<lambda>d. doc_id d \<noteq> i) c"

text \<open>
  A user action together with the way the backend settles the write it causes.
  \<open>Create n d r\<close>: \<open>n\<close> and \<open>d\<close> are typed into the two text fields (their
  \<open>onChange\<close> handlers store them) and the Add button is clicked; \<open>r\<close> is the
  outcome of \<open>addDoc\<close>, carrying the new id and the server time when fulfilled.
  \<open>Delete i r\<close>: the delete button of the row with id \<open>i\<close> is clicked.
\<close>

datatype action =
    Create jsstring jsstring "(jsstring \<times> timestamp) promise"
  | Delete jsstring "unit promise"

fun step :: "provider \<Rightarrow> action \<Rightarrow> content \<times> collection \<Rightarrow> content \<times> collection" where
  "step ctx (Create n d r) (st, c) =
     (case handleAddService_begin ctx (st\<lparr>newService := n, newDescription := d\<rparr>) of
        (st', None) \<Rightarrow> (st', c)
      | (st', Some p) \<Rightarrow>
          (handleAddService_settle r st',
           case r of Fulfilled (i, t) \<Rightarrow> addDoc p i t c | Rejected \<Rightarrow> c))"
| "step ctx (Delete i r) (st, c) =
     (case handleDeleteService_begin ctx i of
        None \<Rightarrow> (st, c)
      | Some j \<Rightarrow>
          (handleDeleteService_settle r st,
           case r of Fulfilled _ \<Rightarrow> deleteDoc j c | Rejected \<Rightarrow> c))"


text \<open>
  The records that a sequence of actions has created and not deleted, written
  from the specification rather than from the handlers: a fulfilled create
  with a name that is not blank makes the record with the trimmed fields, the
  current identity and the backend's id and time; it survives unless a later
  fulfilled delete names its id.
\<close>

fun created :: "provider \<Rightarrow> action \<Rightarrow> service option" where
  "created ctx (Create n d (Fulfilled (i, t))) =
     (if trim n = [] then None
      else Some \<lparr>s_id = i, s_name = trim n, s_description = trim d,
                 s_userId = userId ctx, s_timestamp = Some t\<rparr>)"
| "created ctx (Create n d Rejected) = None"
| "created ctx (Delete i r) = None"

fun deletes :: "action \<Rightarrow> jsstring \<Rightarrow> bool" where
  "deletes (Delete j (Fulfilled u)) i = (i = j)"
| "deletes (Delete j Rejected) i = False"
| "deletes (Create n d r) i = False"

fun surviving :: "provider \<Rightarrow> action list \<Rightarrow> service list" where
  "surviving ctx [] = []"
| "surviving ctx (a # acts) =
     (case created ctx a of
        None \<Rightarrow> surviving ctx acts
      | Some x \<Rightarrow>
          if list_ex (\<lambda>b. deletes b (s_id x)) acts then surviving ctx acts
          else x # surviving ctx acts)"


section \<open>Session bootstrapper: FirebaseProvider\<close>

datatype auth_call = SignInWithCustomToken jsstring | SignInAnonymously | SignOut

datatype view = Spinner | ErrorNotice string | Children

definition provider_init :: provider where
  "provider_init =
     \<lparr>app = None, db = None, auth = None, userId = None, loading = True, error = None\<rparr>"

text \<open>
  \<open>signInUser\<close>: the sign-in call it makes, chosen by the truthiness of
  \<open>initialAuthToken\<close>, and its \<open>catch\<close>/\<open>finally\<close> once that call settles.
\<close>

definition signInUser_begin :: "jsstring option \<Rightarrow> auth_call" where
  "signInUser_begin initialAuthToken =
     (case initialAuthToken of
        None \<Rightarrow> SignInAnonymously
      | Some tok \<Rightarrow> if tok \<noteq> [] then SignInWithCustomToken tok else SignInAnonymously)"

definition signInUser_settle :: "jsstring promise \<Rightarrow> provider \<Rightarrow> provider" where
  "signInUser_settle r st =
     (case r of
        Fulfilled _ \<Rightarrow> st
      | Rejected \<Rightarrow> st\<lparr>error := Some ''Failed to authenticate with Firebase.''\<rparr>)
     \<lparr>loading := False\<rparr>"

text \<open>
  The callback given to \<open>onAuthStateChanged\<close>. \<open>user\<close> is the uid of the user
  object, \<open>None\<close> for \<open>null\<close>. The variable \<open>loading\<close> that the callback reads is
  not a state cell but the constant of the render whose effect created the
  callback, so it is a parameter here. The second component lists the sign-in
  calls started by the callback.
\<close>

definition authStateChanged :: "bool \<Rightarrow> jsstring option \<Rightarrow> jsstring option \<Rightarrow> provider \<Rightarrow> provider \<times> auth_call list" where
  "authStateChanged loading_seen initialAuthToken user st =
     (case user of
        Some uid \<Rightarrow> (st\<lparr>userId := Some uid, loading := False\<rparr>, [])
      | None \<Rightarrow>
          (st\<lparr>userId := None, loading := False\<rparr>,
           if \<not> loading_seen then [signInUser_begin initialAuthToken] else []))"

text \<open>
  The effect has the dependency array \<open>[]\<close>: it runs once, after the first
  render, and the callback it registers lives until unmount. In that render
  \<open>loading\<close> is the initial value of its state cell.
\<close>

definition auth_listener :: "jsstring option \<Rightarrow> jsstring option \<Rightarrow> provider \<Rightarrow> provider \<times> auth_call list" where
  "auth_listener = authStateChanged (loading provider_init)"

text \<open>
  The body of the mount effect. The first argument says where, if anywhere,
  the \<open>try\<close> block throws (\<open>Throws_initializeApp\<close> also stands for a throw of
  \<open>JSON.parse\<close> before it); \<open>currentUser\<close> is \<open>firebaseAuth.currentUser\<close>.
\<close>

datatype setup_outcome =
    Completes
  | Throws_initializeApp
  | Throws_getFirestore
  | Throws_getAuth
  | Throws_onAuthStateChanged

definition setup_failed :: "provider \<Rightarrow> provider" where
  "setup_failed st =
     st\<lparr>error := Some ''Failed to initialize Firebase. Please check the configuration.'',
        loading := False\<rparr>"

definition mount :: "setup_outcome \<Rightarrow> jsstring option \<Rightarrow> jsstring option \<Rightarrow> provider \<Rightarrow> provider \<times> auth_call list" where
  "mount outcome initialAuthToken currentUser st =
     (case outcome of
        Throws_initializeApp \<Rightarrow> (setup_failed st, [])
      | Throws_getFirestore \<Rightarrow> (setup_failed (st\<lparr>app := Some FirebaseApp\<rparr>), [])
      | Throws_getAuth \<Rightarrow>
          (setup_failed (st\<lparr>app := Some FirebaseApp, db := Some Firestore\<rparr>), [])
      | Throws_onAuthStateChanged \<Rightarrow>
          (setup_failed
             (st\<lparr>app := Some FirebaseApp, db := Some Firestore, auth := Some FirebaseAuth\<rparr>),
           [])
      | Completes \<Rightarrow>
          (st\<lparr>app := Some FirebaseApp, db := Some Firestore, auth := Some FirebaseAuth\<rparr>,
           if currentUser = None then [signInUser_begin initialAuthToken] else []))"

text \<open>What the provider returns from its render.\<close>

definition render :: "provider \<Rightarrow> view" where
  "render st =
     (if loading st then Spinner
      else case error st of
             None \<Rightarrow> Children
           | Some msg \<Rightarrow> if msg \<noteq> [] then ErrorNotice msg else Children)"

text \<open>
  Modelled from the spec: the authentication service of its section 6, an
  external collaborator that is not part of app.js, notifies the registered
  listener of every identity change: of \<open>null\<close> when a \<open>signOut\<close> is fulfilled,
  of the new user when a sign-in is fulfilled.
\<close>

definition signOut_fulfilled :: "jsstring option \<Rightarrow> provider \<Rightarrow> provider \<times> auth_call list" where
  "signOut_fulfilled initialAuthToken st = auth_listener initialAuthToken None st"

definition signIn_fulfilled :: "jsstring option \<Rightarrow> jsstring \<Rightarrow> provider \<Rightarrow> provider \<times> auth_call list" where
  "signIn_fulfilled initialAuthToken uid st = auth_listener initialAuthToken (Some uid) st"

text \<open>
  \<open>handleSignOut\<close>, given how \<open>signOut\<close> (\<open>r1\<close>) and \<open>signInAnonymously\<close> (\<open>r2\<close>)
  settle. A rejection of either lands in the one \<open>catch\<close>. The second component
  lists the calls made to the authentication service.
\<close>

definition handleSignOut :: "jsstring option \<Rightarrow> unit promise \<Rightarrow> jsstring promise \<Rightarrow> provider \<Rightarrow> provider \<times> auth_call list" where
  "handleSignOut initialAuthToken r1 r2 st =
     (if auth st = None then (st, [])
      else case r1 of
        Rejected \<Rightarrow> (st\<lparr>error := Some ''Failed to sign out.''\<rparr>, [SignOut])
      | Fulfilled _ \<Rightarrow>
          (let (st1, cs1) = signOut_fulfilled initialAuthToken st;
               st2 = st1\<lparr>userId := None\<rparr>
           in case r2 of
                Rejected \<Rightarrow>
                  (st2\<lparr>error := Some ''Failed to sign out.''\<rparr>,
                   SignOut # cs1 @ [SignInAnonymously])
              | Fulfilled uid \<Rightarrow>
                  (let (st3, cs3) = signIn_fulfilled initialAuthToken uid st2
                   in (st3, SignOut # cs1 @ SignInAnonymously # cs3))))"

text \<open>
  A start of the application in which setup completes, no user is present at
  mount, and the first sign-in settles as \<open>r\<close>.
\<close>

definition bootstrap :: "jsstring option \<Rightarrow> jsstring promise \<Rightarrow> provider" where
  "bootstrap initialAuthToken r =
     (let st1 = fst (mount Completes initialAuthToken None provider_init);
          st2 = (case r of
                   Fulfilled uid \<Rightarrow> fst (signIn_fulfilled initialAuthToken uid st1)
                 | Rejected \<Rightarrow> st1)
      in signInUser_settle r st2)"

text \<open>Any number of later identity changes reported to the listener.\<close>

definition notifications :: "jsstring option \<Rightarrow> jsstring option list \<Rightarrow> provider \<Rightarrow> provider" where
  "notifications initialAuthToken users st =
     foldl (\<lambda>s u. fst (auth_listener initialAuthToken u s)) st users"



section \<open>Predicates and sample data used in the statements\<close>







definition session_example :: provider where
  "session_example =
     \<lparr>app = Some FirebaseApp, db = Some Firestore, auth = Some FirebaseAuth,
      userId = Some (utf16 ''u1''), loading = False, error = None\<rparr>"

definition signed_out_example :: provider where
  "signed_out_example = session_example\<lparr>userId := None\<rparr>"

definition signed_in_example :: provider where
  "signed_in_example = bootstrap None (Fulfilled (utf16 ''u1''))"

definition blank_name :: jsstring where
  "blank_name = [0x20, 0x09, 0x2003, 0xA0]"

definition form_example :: content where
  "form_example =
     content_init\<lparr>newService := utf16 '' Electrical '', newDescription := utf16 ''Wire install''\<rparr>"


definition plumbing_doc :: document where
  "plumbing_doc =
     \<lparr>doc_id = utf16 ''d1'', doc_name = utf16 ''Plumbing'', doc_description = utf16 ''Fix leaks'',
      doc_userId = Some (utf16 ''u1''), doc_timestamp = Some (Timestamp 1700000000 0)\<rparr>"

definition electrical_doc :: document where
  "electrical_doc =
     \<lparr>doc_id = utf16 ''d2'', doc_name = utf16 ''Electrical'', doc_description = utf16 ''Wire install'',
      doc_userId = Some (utf16 ''u1''), doc_timestamp = Some (Timestamp 1700000060 500000000)\<rparr>"






section \<open>Trimming\<close>

lemma all_dropWhile: "(\<forall>x \<in> set (dropWhile P s). P x) \<longleftrightarrow> (\<forall>c \<in> set s. P c)"
  by (induction s) auto

lemma trim_Nil_iff: "trim s = [] \<longleftrightarrow> (\<forall>c \<in> set s. isWhiteSpace c)"
  by (simp add: trim_def all_dropWhile)

lemma trim_examples:
  "trim (utf16 '' Electrical '') = utf16 ''Electrical''"
  "trim (utf16 ''Wire install'') = utf16 ''Wire install''"
  "utf16 ''Electrical'' \<noteq> []"
  by (simp_all add: trim_def utf16_def isWhiteSpace_def)

lemma session_example_resolved:
  "db session_example \<noteq> None" "truthy (userId session_example)"
  by (simp_all add: session_example_def truthy_def utf16_def)


section \<open>The sort of the snapshot callback\<close>














section \<open>The collection after a sequence of actions\<close>







text \<open>
  The records of \<open>surviving\<close> are those that some action of the sequence
  created and that no fulfilled delete later in the sequence names.
\<close>

lemma set_surviving:
  "set (surviving ctx acts) =
     {x. \<exists>pre a post. acts = pre @ a # post \<and> created ctx a = Some x
           \<and> \<not> list_ex (\<lambda>b. deletes b (s_id x)) post}"
proof (induction acts)
  case Nil
  show ?case by simp
next
  case (Cons a' acts)
  have split: "\<And>P. (\<exists>pre a post. a' # acts = pre @ a # post \<and> P a post) \<longleftrightarrow>
      P a' acts \<or> (\<exists>pre a post. acts = pre @ a # post \<and> P a post)"
    by (auto simp: Cons_eq_append_conv)
  show ?case
    unfolding split [of "\<lambda>a post. created ctx a = Some _ \<and> \<not> list_ex (\<lambda>b. deletes b (s_id _)) post"]
    using Cons.IH by (auto split: option.splits)
qed



section \<open>The identity listener\<close>

lemma auth_listener_no_user:
  "auth_listener tok None st = (st\<lparr>userId := None, loading := False\<rparr>, [])"
  by (simp add: auth_listener_def authStateChanged_def provider_init_def)

lemma auth_listener_user:
  "auth_listener tok (Some uid) st = (st\<lparr>userId := Some uid, loading := False\<rparr>, [])"
  by (simp add: auth_listener_def authStateChanged_def)

lemma auth_listener_error_loading:
  "error (fst (auth_listener tok u st)) = error st \<and> loading (fst (auth_listener tok u st)) = False"
  by (cases u) (simp_all add: auth_listener_no_user auth_listener_user)

lemma notifications_error: "error (notifications tok users st) = error st"
  unfolding notifications_def
  by (induction users arbitrary: st) (simp_all add: auth_listener_error_loading)

lemma notifications_loading: "\<not> loading st \<Longrightarrow> \<not> loading (notifications tok users st)"
  unfolding notifications_def
  by (induction users arbitrary: st) (simp_all add: auth_listener_error_loading)

text \<open>No handler of the provider clears an error once it is set.\<close>

lemma truthy_error_kept:
  "truthy (error st) \<Longrightarrow> truthy (error (signInUser_settle r st))"
  "truthy (error st) \<Longrightarrow> truthy (error (fst (auth_listener tok u st)))"
  "truthy (error st) \<Longrightarrow> truthy (error (fst (handleSignOut tok r1 r2 st)))"
    apply (cases r; simp add: signInUser_settle_def truthy_def)
   apply (simp add: auth_listener_error_loading)
  apply (cases r1; cases r2; cases "auth st";
      simp add: handleSignOut_def signOut_fulfilled_def signIn_fulfilled_def
        auth_listener_no_user auth_listener_user truthy_def)
  done

text \<open>
  Had the guard read the state cell instead of the constant of the first
  render, a report of no user after the bootstrap would start a sign-in.
\<close>

lemma guard_on_state_would_sign_in:
  "\<not> loading st \<Longrightarrow> snd (authStateChanged (loading st) tok None st) = [signInUser_begin tok]"
  by (simp add: authStateChanged_def)

lemma setup_failure_blocks_rendering:
  "outcome \<noteq> Completes \<Longrightarrow>
   render (fst (mount outcome tok cu st)) =
     ErrorNotice ''Failed to initialize Firebase. Please check the configuration.''"
  by (cases outcome) (simp_all add: mount_def setup_failed_def render_def)

lemma signed_in_example_eq: "signed_in_example = session_example"
  by (simp add: signed_in_example_def bootstrap_def mount_def provider_init_def
      signInUser_settle_def signIn_fulfilled_def auth_listener_user session_example_def)


section \<open>Create, delete and the final snapshot\<close>





section \<open>Order of the published list\<close>





section \<open>Validation in handleAddService\<close>

text \<open>
  Claim C3. When the name consists of white space only (the empty name
  included), \<open>handleAddService\<close> makes no \<open>addDoc\<close> call, whatever the session
  is, stores the message ``Service name cannot be empty.'' and changes nothing
  else; the collection stays as it is.
\<close>

theorem blank_name_is_rejected:
  assumes "list_all isWhiteSpace n"
  shows "handleAddService ctx r (st\<lparr>newService := n\<rparr>) =
           (st\<lparr>newService := n, submitError := Some ''Service name cannot be empty.''\<rparr>, None)
       \<and> snd (step ctx (Create n d r) (st, c)) = c"
proof -
  have "trim n = []" using assms by (simp add: trim_Nil_iff list_all_iff)
  then show ?thesis
    by (simp add: handleAddService_def handleAddService_begin_def)
qed

theorem blank_name_is_rejected_witness:
  "list_all isWhiteSpace blank_name
   \<and> handleAddService session_example (Fulfilled (utf16 ''d5'', Timestamp 1700000200 0)) (content_init\<lparr>newService := blank_name\<rparr>) =
       (content_init\<lparr>newService := blank_name, submitError := Some ''Service name cannot be empty.''\<rparr>, None)
   \<and> snd (step session_example (Create blank_name [] (Fulfilled (utf16 ''d5'', Timestamp 1700000200 0))) (content_init, [plumbing_doc]))
       = [plumbing_doc]"
proof -
  have h: "list_all isWhiteSpace blank_name"
    by (simp add: blank_name_def isWhiteSpace_def)
  from h blank_name_is_rejected [OF h, where ctx = session_example and r = "Fulfilled (utf16 ''d5'', Timestamp 1700000200 0)"
      and st = content_init and d = "[]" and c = "[plumbing_doc]"]
  show ?thesis by (rule conjI)
qed


section \<open>The write of handleAddService\<close>

text \<open>
  Claim C4. When the connection and the identity are resolved and the trimmed
  name is not empty, \<open>handleAddService\<close> makes exactly one \<open>addDoc\<close> call; its
  payload has the trimmed name, the trimmed description, the current identity
  and the server-timestamp sentinel. A fulfilled write adds exactly one
  document with these fields and the server's time to the collection. Neither
  the synchronous part nor the continuation, however the write settles,
  changes the published list.
\<close>

theorem create_issues_one_write:
  assumes "db ctx \<noteq> None" and "truthy (userId ctx)" and "trim (newService st) \<noteq> []"
  shows "snd (handleAddService_begin ctx st) =
           Some \<lparr>p_name = trim (newService st), p_description = trim (newDescription st),
                 p_userId = userId ctx, p_timestamp = ServerTimestamp\<rparr>
       \<and> services (fst (handleAddService_begin ctx st)) = services st
       \<and> services (handleAddService_settle r st') = services st'
       \<and> services (fst (handleAddService ctx r st)) = services st
       \<and> snd (step ctx (Create (newService st) (newDescription st) (Fulfilled (i, t))) (st, c)) =
           c @ [\<lparr>doc_id = i, doc_name = trim (newService st),
                  doc_description = trim (newDescription st),
                  doc_userId = userId ctx, doc_timestamp = Some t\<rparr>]"
  using assms
  by (auto simp: handleAddService_def handleAddService_begin_def handleAddService_settle_def addDoc_def
      split: promise.splits)

theorem create_issues_one_write_witness:
  "db session_example \<noteq> None \<and> truthy (userId session_example)
   \<and> trim (newService form_example) \<noteq> []
   \<and> snd (handleAddService_begin session_example form_example) =
       Some \<lparr>p_name = utf16 ''Electrical'', p_description = utf16 ''Wire install'',
             p_userId = Some (utf16 ''u1''), p_timestamp = ServerTimestamp\<rparr>
   \<and> snd (step session_example
            (Create (newService form_example) (newDescription form_example) (Fulfilled (utf16 ''d2'', Timestamp 1700000060 500000000)))
            (form_example, [plumbing_doc])) = [plumbing_doc, electrical_doc]"
proof -
  note h1 = session_example_resolved(1) and h2 = session_example_resolved(2)
  have h3: "trim (newService form_example) \<noteq> []"
    by (simp add: form_example_def trim_examples)
  have v: "trim (newService form_example) = utf16 ''Electrical''"
    "trim (newDescription form_example) = utf16 ''Wire install''"
    "userId session_example = Some (utf16 ''u1'')"
    by (simp_all add: form_example_def trim_examples session_example_def)
  from create_issues_one_write [OF h1 h2 h3, where r = Rejected and st' = form_example
      and i = "utf16 ''d2''" and t = "Timestamp 1700000060 500000000" and c = "[plumbing_doc]"]
  have "snd (handleAddService_begin session_example form_example) =
       Some \<lparr>p_name = utf16 ''Electrical'', p_description = utf16 ''Wire install'',
             p_userId = Some (utf16 ''u1''), p_timestamp = ServerTimestamp\<rparr>
     \<and> snd (step session_example
            (Create (newService form_example) (newDescription form_example) (Fulfilled (utf16 ''d2'', Timestamp 1700000060 500000000)))
            (form_example, [plumbing_doc])) = [plumbing_doc, electrical_doc]"
    by (simp only: v electrical_doc_def append.simps)
  with h1 h2 h3 show ?thesis by blast
qed


section \<open>Rendering after an authentication failure\<close>

text \<open>
  Claim C5, as the code has it. When the sign-in of \<open>signInUser\<close> is rejected,
  the message ``Failed to authenticate with Firebase.'' is stored in \<open>error\<close>
  and \<open>loading\<close> is cleared. From then on, through any later reports of the
  identity listener, the provider renders the error notice with that message
  in place of its children, as it does after a failed setup.
\<close>

theorem auth_failure_blocks_rendering:
  "error (signInUser_settle Rejected st) = Some ''Failed to authenticate with Firebase.''
   \<and> loading (signInUser_settle Rejected st) = False
   \<and> render (notifications tok users (signInUser_settle Rejected st)) =
       ErrorNotice ''Failed to authenticate with Firebase.''"
proof -
  let ?st = "signInUser_settle Rejected st"
  have e: "error ?st = Some ''Failed to authenticate with Firebase.''" and l: "\<not> loading ?st"
    by (simp_all add: signInUser_settle_def)
  have "error (notifications tok users ?st) = Some ''Failed to authenticate with Firebase.''"
    using e by (simp add: notifications_error)
  moreover have "\<not> loading (notifications tok users ?st)"
    using l by (rule notifications_loading)
  ultimately have "render (notifications tok users ?st) = ErrorNotice ''Failed to authenticate with Firebase.''"
    by (simp add: render_def)
  with e l show ?thesis by simp
qed

text \<open>
  The application starts, setup completes and the anonymous sign-in is
  rejected: the children (form and list) are not rendered.
\<close>

theorem auth_failure_renders_body_counterexample:
  "render (bootstrap None Rejected) = ErrorNotice ''Failed to authenticate with Firebase.''
   \<and> render (bootstrap None Rejected) \<noteq> Children"
  by (simp add: bootstrap_def mount_def provider_init_def signInUser_settle_def render_def)


section \<open>Errors of the subscription\<close>

text \<open>
  Claim C6. The error callback of the subscription stores the message ``Failed
  to load services.'' and leaves the published list as it was, whatever the
  list holds.
\<close>

theorem subscription_error_keeps_list:
  "services (onSnapshot_error st) = services st
   \<and> submitError (onSnapshot_error st) = Some ''Failed to load services.''
   \<and> truthy (submitError (onSnapshot_error st))"
  by (simp add: onSnapshot_error_def truthy_def)


section \<open>A rejected write\<close>

text \<open>
  Claim C7. When \<open>handleAddService\<close> has called \<open>addDoc\<close> and the write is
  rejected, the message ``Failed to add service. Please try again.'' is stored
  and the two input fields keep their values; this holds for the call as a
  whole and for the continuation on any state it resumes in.
\<close>

theorem failed_write_keeps_inputs:
  assumes "snd (handleAddService_begin ctx st) \<noteq> None"
  shows "submitError (fst (handleAddService ctx Rejected st)) = Some ''Failed to add service. Please try again.''
       \<and> newService (fst (handleAddService ctx Rejected st)) = newService st
       \<and> newDescription (fst (handleAddService ctx Rejected st)) = newDescription st
       \<and> newService (handleAddService_settle Rejected st') = newService st'
       \<and> newDescription (handleAddService_settle Rejected st') = newDescription st'
       \<and> submitError (handleAddService_settle Rejected st') = Some ''Failed to add service. Please try again.''"
  using assms
  by (auto simp: handleAddService_def handleAddService_begin_def handleAddService_settle_def
      split: if_splits)

theorem failed_write_keeps_inputs_witness:
  "snd (handleAddService_begin session_example form_example) \<noteq> None
   \<and> submitError (fst (handleAddService session_example Rejected form_example)) =
       Some ''Failed to add service. Please try again.''
   \<and> newService (fst (handleAddService session_example Rejected form_example)) = utf16 '' Electrical ''
   \<and> newDescription (fst (handleAddService session_example Rejected form_example)) = utf16 ''Wire install''"
proof -
  have h: "snd (handleAddService_begin session_example form_example) \<noteq> None"
    using session_example_resolved
    by (simp add: handleAddService_begin_def form_example_def trim_examples)
  have v: "newService form_example = utf16 '' Electrical ''" "newDescription form_example = utf16 ''Wire install''"
    by (simp_all add: form_example_def)
  from h failed_write_keeps_inputs [OF h, where st' = form_example]
  show ?thesis by (simp only: v) blast
qed

text \<open>The inputs are cleared by the continuation of a fulfilled write.\<close>

lemma successful_write_clears_inputs:
  "newService (handleAddService_settle (Fulfilled x) st) = []
   \<and> newDescription (handleAddService_settle (Fulfilled x) st) = []"
  by (simp add: handleAddService_settle_def)


section \<open>Identity after a sign-out\<close>

text \<open>
  Claim C8, as the code has it. When the provider holds an auth handle and
  \<open>signOut\<close> is fulfilled, \<open>handleSignOut\<close> clears the identity and makes exactly
  one anonymous sign-in call. If that call is fulfilled, the identity is the
  new user and \<open>error\<close> is unchanged; if it is rejected, the identity stays
  \<open>null\<close> and the message ``Failed to sign out.'' is stored.
\<close>

theorem sign_out_attempts_one_anonymous_sign_in:
  assumes "auth st \<noteq> None"
  shows "snd (handleSignOut tok (Fulfilled ()) r st) = [SignOut, SignInAnonymously]
       \<and> userId (fst (handleSignOut tok (Fulfilled ()) (Fulfilled uid) st)) = Some uid
       \<and> error (fst (handleSignOut tok (Fulfilled ()) (Fulfilled uid) st)) = error st
       \<and> userId (fst (handleSignOut tok (Fulfilled ()) Rejected st)) = None
       \<and> error (fst (handleSignOut tok (Fulfilled ()) Rejected st)) = Some ''Failed to sign out.''"
  using assms
  by (cases "auth st"; cases r)
    (simp_all add: handleSignOut_def signOut_fulfilled_def signIn_fulfilled_def
       auth_listener_no_user auth_listener_user)

theorem sign_out_attempts_one_anonymous_sign_in_witness:
  "auth signed_in_example \<noteq> None
   \<and> snd (handleSignOut None (Fulfilled ()) (Fulfilled (utf16 ''anon2'')) signed_in_example) = [SignOut, SignInAnonymously]
   \<and> userId (fst (handleSignOut None (Fulfilled ()) (Fulfilled (utf16 ''anon2'')) signed_in_example)) = Some (utf16 ''anon2'')
   \<and> error (fst (handleSignOut None (Fulfilled ()) (Fulfilled (utf16 ''anon2'')) signed_in_example)) = error signed_in_example
   \<and> userId (fst (handleSignOut None (Fulfilled ()) Rejected signed_in_example)) = None
   \<and> error (fst (handleSignOut None (Fulfilled ()) Rejected signed_in_example)) = Some ''Failed to sign out.''"
proof -
  have h: "auth signed_in_example \<noteq> None"
    by (simp add: signed_in_example_eq session_example_def)
  from h sign_out_attempts_one_anonymous_sign_in [OF h, where tok = None
      and r = "Fulfilled (utf16 ''anon2'')" and uid = "utf16 ''anon2''"]
  show ?thesis by (rule conjI)
qed

text \<open>
  After a successful bootstrap, \<open>signOut\<close> is fulfilled and the anonymous
  sign-in is rejected: the identity is \<open>null\<close>, the two calls have settled and
  no further call is made.
\<close>

theorem sign_out_identity_stays_null_counterexample:
  "userId signed_in_example = Some (utf16 ''u1'')
   \<and> handleSignOut None (Fulfilled ()) Rejected signed_in_example =
       (signed_in_example\<lparr>userId := None, error := Some ''Failed to sign out.''\<rparr>,
        [SignOut, SignInAnonymously])
   \<and> userId (fst (handleSignOut None (Fulfilled ()) Rejected signed_in_example)) = None"
  by (simp add: signed_in_example_eq session_example_def handleSignOut_def signOut_fulfilled_def
      auth_listener_no_user)


section \<open>A report of no user\<close>

text \<open>
  Claim C9 says that a report of no user, when the bootstrap is over, starts
  an anonymous sign-in. Here the application has started and signed in
  (\<open>loading\<close> is false), and the listener is told that there is no user: the
  identity is cleared and no sign-in call is made.
\<close>

theorem external_sign_out_starts_no_sign_in:
  "loading signed_in_example = False
   \<and> auth_listener None None signed_in_example = (signed_in_example\<lparr>userId := None\<rparr>, [])"
  by (simp add: signed_in_example_eq session_example_def auth_listener_no_user)


section \<open>Create without a session\<close>

text \<open>
  Claim C10. When the connection is missing or the identity is not resolved,
  \<open>handleAddService\<close> makes no \<open>addDoc\<close> call, whatever the name is, and stores
  ``Service name cannot be empty.'': message and absence of a write are those
  of a call with an empty name in a resolved session.
\<close>

theorem unresolved_session_is_rejected_as_empty_name:
  assumes "db ctx = None \<or> \<not> truthy (userId ctx)"
  shows "handleAddService ctx r st =
           (st\<lparr>submitError := Some ''Service name cannot be empty.''\<rparr>, None)
       \<and> snd (step ctx (Create n d r) (st, c)) = c
       \<and> handleAddService ctx' r (st\<lparr>newService := []\<rparr>) =
           (st\<lparr>newService := [], submitError := Some ''Service name cannot be empty.''\<rparr>, None)"
  using assms
  by (auto simp: handleAddService_def handleAddService_begin_def trim_def)

theorem unresolved_session_is_rejected_as_empty_name_witness:
  "(db signed_out_example = None \<or> \<not> truthy (userId signed_out_example))
   \<and> trim (newService form_example) \<noteq> []
   \<and> handleAddService signed_out_example (Fulfilled (utf16 ''d2'', Timestamp 1700000060 500000000)) form_example =
       (form_example\<lparr>submitError := Some ''Service name cannot be empty.''\<rparr>, None)
   \<and> snd (step signed_out_example (Create (utf16 ''Plumbing'') [] (Fulfilled (utf16 ''d2'', Timestamp 1700000060 500000000))) (form_example, [])) = []
   \<and> handleAddService session_example (Fulfilled (utf16 ''d2'', Timestamp 1700000060 500000000)) (form_example\<lparr>newService := []\<rparr>) =
       (form_example\<lparr>newService := [], submitError := Some ''Service name cannot be empty.''\<rparr>, None)"
proof -
  have h: "db signed_out_example = None \<or> \<not> truthy (userId signed_out_example)"
    by (simp add: signed_out_example_def truthy_def)
  have t: "trim (newService form_example) \<noteq> []"
    by (simp add: form_example_def trim_examples)
  from h t unresolved_session_is_rejected_as_empty_name [OF h, where r = "Fulfilled (utf16 ''d2'', Timestamp 1700000060 500000000)"
      and st = form_example and n = "utf16 ''Plumbing''" and d = "[]" and c = "[]" and ctx' = session_example]
  show ?thesis by blast
qed

end
